theory Spec2Isabelle
  imports Main "HOL-Library.AList"
begin

section \<open>Python values, exceptions and the operating system\<close>

text \<open>
  The values that travel through the wrapper's payloads: what Python calls
  \<^verbatim>\<open>None\<close>, \<^verbatim>\<open>bool\<close>, \<^verbatim>\<open>int\<close>, \<^verbatim>\<open>str\<close>, \<^verbatim>\<open>list\<close> and \<^verbatim>\<open>dict\<close>. A dictionary
  keeps its insertion order, so it is an association list.
\<close>

datatype pyval =
    PNone
  | PBool bool
  | PInt int
  | PStr string
  | PList "pyval list"
  | PDict "(string \<times> pyval) list"

text \<open>
  The exceptions the two modules raise or let through. \<^verbatim>\<open>NameError\<close> and
  \<^verbatim>\<open>NotImplementedError\<close> carry the message the source gives them.
\<close>

datatype error =
    NameError string
  | NotImplementedError string
  | UnboundLocalError
  | TypeError
  | AttributeError
  | IndexError
  | ValidationError
  | LoaderError string

text \<open>
  The file system and path library are not part of the two modules; the calls the source
  makes are the fields of this record. \<open>os_walk\<close> is \<^verbatim>\<open>os.walk\<close>: the triples
  \<^verbatim>\<open>(dirpath, dirnames, filenames)\<close> in the order it yields them. \<open>os_owner\<close> is
  \<^verbatim>\<open>pwd.getpwuid(os.stat(p).st_uid).pw_name\<close>, \<open>None\<close> when either call raises.
  \<open>path_resolve\<close> is \<^verbatim>\<open>str(pathlib.Path(p).resolve())\<close>.
\<close>

record os_env =
  os_isfile :: "string \<Rightarrow> bool"
  os_isdir :: "string \<Rightarrow> bool"
  os_islink :: "string \<Rightarrow> bool"
  os_getsize :: "string \<Rightarrow> nat"
  os_walk :: "string \<Rightarrow> (string \<times> string list \<times> string list) list"
  os_owner :: "string \<Rightarrow> string option"
  path_resolve :: "string \<Rightarrow> string"

section \<open>utilities/pebblo.py\<close>

subsection \<open>The loader tables\<close>

definition file_loader :: "string list" where
  "file_loader =
     [''JSONLoader'', ''S3FileLoader'', ''UnstructuredMarkdownLoader'',
      ''UnstructuredPDFLoader'', ''UnstructuredFileLoader'', ''UnstructuredJsonLoader'',
      ''PyPDFLoader'', ''GCSFileLoader'', ''AmazonTextractPDFLoader'', ''CSVLoader'',
      ''UnstructuredExcelLoader'', ''UnstructuredEmailLoader'']"

definition dir_loader :: "string list" where
  "dir_loader =
     [''DirectoryLoader'', ''S3DirLoader'', ''SlackDirectoryLoader'',
      ''PyPDFDirectoryLoader'', ''NotionDirectoryLoader'']"

definition in_memory :: "string list" where
  "in_memory = [''DataFrameLoader'']"

definition remote_db :: "string list" where
  "remote_db = [''NotionDBLoader'', ''GoogleDriveLoader'']"

text \<open>\<^verbatim>\<open>LOADER_TYPE_MAPPING\<close>: a dict literal, iterated in the order it is written.\<close>

definition LOADER_TYPE_MAPPING :: "(string \<times> string list) list" where
  "LOADER_TYPE_MAPPING =
     [(''file'', file_loader), (''dir'', dir_loader),
      (''in-memory'', in_memory), (''remote_db'', remote_db)]"

definition PLUGIN_VERSION :: string where
  "PLUGIN_VERSION = ''0.1.0''"

subsection \<open>get_loader_type\<close>

text \<open>
  The \<^verbatim>\<open>for loader_type, loaders in LOADER_TYPE_MAPPING.items()\<close> loop: the first
  entry whose list holds the name decides; falling out of the loop gives \<^verbatim>\<open>"unknown"\<close>.
\<close>

fun loader_type_loop :: "(string \<times> string list) list \<Rightarrow> string \<Rightarrow> string" where
  "loader_type_loop [] loader = ''unknown''"
| "loader_type_loop ((loader_type, loaders) # rest) loader =
     (if loader \<in> set loaders then loader_type else loader_type_loop rest loader)"

definition get_loader_type :: "string \<Rightarrow> string" where
  "get_loader_type loader = loader_type_loop LOADER_TYPE_MAPPING loader"

subsection \<open>get_full_path\<close>

text \<open>\<^verbatim>\<open>sub in s\<close> on strings: \<open>sub\<close> occurs in \<open>s\<close> as a contiguous run.\<close>

definition starts_with :: "string \<Rightarrow> string \<Rightarrow> bool" where
  "starts_with s pre = (take (length pre) s = pre)"

fun str_contains :: "string \<Rightarrow> string \<Rightarrow> bool" where
  "str_contains sub [] = (sub = [])"
| "str_contains sub (c # cs) = (starts_with (c # cs) sub \<or> str_contains sub cs)"

text \<open>
  The argument is whatever the caller found: \<open>None\<close> is Python's \<^verbatim>\<open>None\<close> (a document
  without a \<^verbatim>\<open>source\<close>), which \<^verbatim>\<open>not path\<close> sends back unchanged like the empty string.
\<close>

definition get_full_path :: "os_env \<Rightarrow> string option \<Rightarrow> string option" where
  "get_full_path os path =
     (case path of
        None \<Rightarrow> None
      | Some p \<Rightarrow>
          if p = [] \<or> str_contains ''://'' p \<or> hd p = CHR ''/''
             \<or> p \<in> set [''unknown'', ''-'', ''in-memory'']
          then Some p
          else Some (path_resolve os p))"

section \<open>document_loaders/daxa.py: file metadata\<close>

subsection \<open>get_file_owner_from_path\<close>

text \<open>Every exception of the two library calls, a \<^verbatim>\<open>None\<close> path included, gives \<^verbatim>\<open>'unknown'\<close>.\<close>

definition get_file_owner_from_path :: "os_env \<Rightarrow> string option \<Rightarrow> string" where
  "get_file_owner_from_path os file_path =
     (case file_path of
        None \<Rightarrow> ''unknown''
      | Some p \<Rightarrow> (case os_owner os p of None \<Rightarrow> ''unknown'' | Some name \<Rightarrow> name))"

subsection \<open>get_source_size\<close>

text \<open>\<^verbatim>\<open>os.path.join\<close> of two components (POSIX).\<close>

definition os_path_join :: "string \<Rightarrow> string \<Rightarrow> string" where
  "os_path_join a b =
     (if starts_with b ''/'' then b
      else if a = [] \<or> last a = CHR ''/'' then a @ b
      else a @ ''/'' @ b)"

text \<open>The inner loop over \<^verbatim>\<open>filenames\<close>, with \<^verbatim>\<open>total_size\<close> as the accumulator.\<close>

fun size_of_filenames :: "os_env \<Rightarrow> string \<Rightarrow> string list \<Rightarrow> nat \<Rightarrow> nat" where
  "size_of_filenames os dirpath [] total_size = total_size"
| "size_of_filenames os dirpath (f # filenames) total_size =
     (let fp = os_path_join dirpath f
      in size_of_filenames os dirpath filenames
           (if \<not> os_islink os fp then total_size + os_getsize os fp else total_size))"

text \<open>The outer loop over the triples of \<^verbatim>\<open>os.walk\<close>.\<close>

fun size_of_walk :: "os_env \<Rightarrow> (string \<times> string list \<times> string list) list \<Rightarrow> nat \<Rightarrow> nat" where
  "size_of_walk os [] total_size = total_size"
| "size_of_walk os ((dirpath, dirnames, filenames) # rest) total_size =
     size_of_walk os rest (size_of_filenames os dirpath filenames total_size)"

text \<open>
  \<^verbatim>\<open>size\<close> is bound in the two branches only: for a path that is neither a file nor a
  directory \<^verbatim>\<open>return size\<close> raises \<^verbatim>\<open>UnboundLocalError\<close>. \<^verbatim>\<open>os.path.isfile(None)\<close> raises
  \<^verbatim>\<open>TypeError\<close>.
\<close>

definition get_source_size :: "os_env \<Rightarrow> string option \<Rightarrow> error + nat" where
  "get_source_size os source_path =
     (case source_path of
        None \<Rightarrow> Inl TypeError
      | Some p \<Rightarrow>
          if os_isfile os p then Inr (os_getsize os p)
          else if os_isdir os p then Inr (size_of_walk os (os_walk os p) 0)
          else Inl UnboundLocalError)"

section \<open>The collaborators of the wrapper\<close>

text \<open>
  A \<^verbatim>\<open>Document\<close>: its text and the two metadata entries the wrapper reads,
  \<^verbatim>\<open>metadata.get('source')\<close> (a string, or \<open>None\<close> when the key is absent) and
  \<^verbatim>\<open>metadata.get('last_modified')\<close> (\<open>PNone\<close> when absent).
\<close>

record document =
  page_content :: string
  doc_source :: "string option"
  last_modified :: pyval

text \<open>
  The wrapped loader as the wrapper sees it: \<open>type_str\<close> is \<^verbatim>\<open>str(type(loader))\<close>, the
  flags are the \<^verbatim>\<open>isinstance\<close> tests of \<^verbatim>\<open>get_loader_full_path\<close>, \<open>attrs\<close> is the
  instance \<^verbatim>\<open>__dict__\<close>. \<open>load_result\<close> is what \<^verbatim>\<open>loader.load()\<close> does. \<open>lazy_load_result\<close>
  is what \<^verbatim>\<open>loader.lazy_load()\<close> does: it raises, or returns an iterator that yields the
  documents and then ends by \<^verbatim>\<open>StopIteration\<close> (\<open>None\<close>) or by another exception.
\<close>

record base_loader =
  type_str :: string
  is_BaseLoader :: bool
  is_GCSFileLoader :: bool
  is_S3FileLoader :: bool
  is_DataFrameLoader :: bool
  is_NotionDBLoader :: bool
  attrs :: "(string \<times> pyval) list"
  load_result :: "error + document list"
  lazy_load_result :: "error + (document list \<times> error option)"

text \<open>What \<^verbatim>\<open>requests.post\<close> and the logging of the response do inside the \<^verbatim>\<open>try\<close>.\<close>

datatype post_outcome =
    Response nat bool  \<comment> \<open>status code; whether \<^verbatim>\<open>resp.json()\<close> parses\<close>
  | RequestException
  | OtherException

datatype ftype = TStr | TList | TDict | TBool

text \<open>
  The libraries and the network. \<open>uuid4 n\<close> is the \<open>n\<close>-th identifier \<^verbatim>\<open>uuid.uuid4()\<close>
  draws; \<open>get_runtime\<close> is the framework and runtime description of
  \<^verbatim>\<open>get_runtime()\<close>, already dumped, or the exception of the introspection; \<open>coerce\<close> is
  the validation of one value against a declared field type; \<open>py_repr\<close> is \<^verbatim>\<open>str()\<close> of
  a value that is not a string.
\<close>

record sys_env =
  fs :: os_env
  CLASSIFIER_URL :: string
  uuid4 :: "nat \<Rightarrow> string"
  get_runtime :: "error + (pyval \<times> pyval)"
  requests_post :: "string \<Rightarrow> pyval \<Rightarrow> post_outcome"
  coerce :: "ftype \<Rightarrow> pyval \<Rightarrow> pyval option"
  py_repr :: "pyval \<Rightarrow> string"

text \<open>
  What the wrapper changes outside itself: the requests it has passed to
  \<^verbatim>\<open>requests.post\<close> (url and body, oldest first), the two class-level flags, and how many
  identifiers have been drawn.
\<close>

record world =
  http_log :: "(string \<times> pyval) list"
  discover_sent :: bool
  loader_sent :: bool
  uuid_count :: nat

definition str_of :: "sys_env \<Rightarrow> pyval \<Rightarrow> string" where
  "str_of env v = (case v of PStr s \<Rightarrow> s | _ \<Rightarrow> py_repr env v)"

definition py_truthy :: "pyval \<Rightarrow> bool" where
  "py_truthy v =
     (case v of
        PNone \<Rightarrow> False
      | PBool b \<Rightarrow> b
      | PInt i \<Rightarrow> i \<noteq> 0
      | PStr s \<Rightarrow> s \<noteq> []
      | PList xs \<Rightarrow> xs \<noteq> []
      | PDict kvs \<Rightarrow> kvs \<noteq> [])"

definition is_str :: "pyval \<Rightarrow> bool" where
  "is_str v = (case v of PStr s \<Rightarrow> True | _ \<Rightarrow> False)"

definition opt_str :: "string option \<Rightarrow> pyval" where
  "opt_str x = (case x of None \<Rightarrow> PNone | Some s \<Rightarrow> PStr s)"

subsection \<open>get_loader_full_path\<close>

definition attr :: "base_loader \<Rightarrow> string \<Rightarrow> error + pyval" where
  "attr ld k = (case map_of (attrs ld) k of None \<Rightarrow> Inl AttributeError | Some v \<Rightarrow> Inr v)"

text \<open>\<^verbatim>\<open>x[0]\<close> on a list or a string; other values are not subscriptable.\<close>

definition first_item :: "pyval \<Rightarrow> error + pyval" where
  "first_item v =
     (case v of
        PList xs \<Rightarrow> (case xs of [] \<Rightarrow> Inl IndexError | x # _ \<Rightarrow> Inr x)
      | PStr s \<Rightarrow> (case s of [] \<Rightarrow> Inl IndexError | c # _ \<Rightarrow> Inr (PStr [c]))
      | _ \<Rightarrow> Inl TypeError)"

text \<open>\<^verbatim>\<open>f"{scheme}{a}/{b}"\<close> over two attributes of the loader.\<close>

definition uri_of :: "sys_env \<Rightarrow> base_loader \<Rightarrow> string \<Rightarrow> string \<Rightarrow> string \<Rightarrow> error + pyval" where
  "uri_of env ld scheme a b =
     (case attr ld a of
        Inl e \<Rightarrow> Inl e
      | Inr va \<Rightarrow>
          (case attr ld b of
             Inl e \<Rightarrow> Inl e
           | Inr vb \<Rightarrow> Inr (PStr (scheme @ str_of env va @ ''/'' @ str_of env vb))))"

text \<open>The \<^verbatim>\<open>if\<close>/\<^verbatim>\<open>elif\<close> chain that picks \<^verbatim>\<open>location\<close>, in the source's order.\<close>

definition loader_location :: "sys_env \<Rightarrow> base_loader \<Rightarrow> error + pyval" where
  "loader_location env ld =
     (let loader_keys = map fst (attrs ld) in
      if ''bucket'' \<in> set loader_keys then
        (if is_GCSFileLoader ld then uri_of env ld ''gc://'' ''bucket'' ''blob''
         else if is_S3FileLoader ld then uri_of env ld ''s3://'' ''bucket'' ''key''
         else Inr (PStr ''-''))
      else if ''source'' \<in> set loader_keys then
        (case attr ld ''source'' of
           Inl e \<Rightarrow> Inl e
         | Inr src \<Rightarrow>
             if ''channel'' \<in> set loader_keys then
               (case attr ld ''channel'' of
                  Inl e \<Rightarrow> Inl e
                | Inr ch \<Rightarrow> Inr (PStr (str_of env src @ ''/'' @ str_of env ch)))
             else Inr (PStr (str_of env src)))
      else if ''path'' \<in> set loader_keys then attr ld ''path''
      else if ''file_path'' \<in> set loader_keys then attr ld ''file_path''
      else if ''web_paths'' \<in> set loader_keys then
        (case attr ld ''web_paths'' of Inl e \<Rightarrow> Inl e | Inr v \<Rightarrow> first_item v)
      else if is_DataFrameLoader ld then Inr (PStr ''in-memory'')
      else if is_NotionDBLoader ld then
        (case attr ld ''database_id'' of
           Inl e \<Rightarrow> Inl e
         | Inr v \<Rightarrow> Inr (PStr (''notiondb://'' @ str_of env v)))
      else Inr (PStr ''-''))"

definition get_loader_full_path :: "sys_env \<Rightarrow> base_loader \<Rightarrow> error + string option" where
  "get_loader_full_path env ld =
     (if \<not> is_BaseLoader ld then Inr (Some ''-'')
      else
        (case loader_location env ld of
           Inl e \<Rightarrow> Inl e
         | Inr location \<Rightarrow> Inr (get_full_path (fs env) (Some (str_of env location)))))"

section \<open>document_loaders/daxa.py: the wrapper\<close>

text \<open>
  The instance attributes \<^verbatim>\<open>__init__\<close> assigns. \<open>class_name\<close> is
  \<^verbatim>\<open>self.__class__.__name__\<close>, the dynamic class of the wrapper itself.
\<close>

record daxa_safe_loader =
  class_name :: string
  app_name :: string
  load_id :: string
  loader :: base_loader
  owner :: string
  description :: string
  source_path :: "string option"
  source_owner :: string
  docs :: "document list"
  source_type :: string
  source_size :: nat
  loader_details :: pyval
  app :: pyval

subsection \<open>The Doc schema and its validation\<close>

text \<open>
  The fields \<^verbatim>\<open>class Doc\<close> declares, in order. None has a default, so each is required.
\<close>

definition Doc_fields :: "(string \<times> ftype) list" where
  "Doc_fields =
     [(''name'', TStr), (''owner'', TStr), (''docs'', TList), (''plugin_version'', TStr),
      (''load_id'', TStr), (''loader_details'', TDict), (''loading_end'', TBool),
      (''source_owner'', TStr)]"

text \<open>
  Validation of a dictionary against declared fields: a declared field that is absent,
  or whose value the field type rejects, fails the validation; keys that are not declared
  are ignored. The result holds the declared fields, in declaration order.
\<close>

fun validate_fields ::
  "(ftype \<Rightarrow> pyval \<Rightarrow> pyval option) \<Rightarrow> (string \<times> ftype) list \<Rightarrow> (string \<times> pyval) list
     \<Rightarrow> (string \<times> pyval) list option" where
  "validate_fields co [] payload = Some []"
| "validate_fields co ((k, t) # declared) payload =
     (case map_of payload k of
        None \<Rightarrow> None
      | Some v \<Rightarrow>
          (case co t v of
             None \<Rightarrow> None
           | Some v' \<Rightarrow>
               (case validate_fields co declared payload of
                  None \<Rightarrow> None
                | Some r \<Rightarrow> Some ((k, v') # r))))"

text \<open>
  \<^verbatim>\<open>Doc.model_validate(payload).model_dump(exclude_unset=True)\<close>, read as the validation
  and the dump of the schema library: a payload that the schema rejects raises at this
  line, a payload that it accepts comes back as the dictionary of the declared fields.
\<close>

definition Doc_model_validate :: "sys_env \<Rightarrow> (string \<times> pyval) list \<Rightarrow> error + pyval" where
  "Doc_model_validate env payload =
     (case validate_fields (coerce env) Doc_fields payload of
        None \<Rightarrow> Inl ValidationError
      | Some dumped \<Rightarrow> Inr (PDict dumped))"

subsection \<open>_send_loader_doc\<close>

text \<open>One pass of the loop over \<^verbatim>\<open>doc_content\<close>: the record appended for one document.\<close>

definition doc_record :: "sys_env \<Rightarrow> document \<Rightarrow> error + pyval" where
  "doc_record env doc =
     (let doc_source_path = get_full_path (fs env) (doc_source doc);
          doc_source_owner = get_file_owner_from_path (fs env) doc_source_path
      in case get_source_size (fs env) doc_source_path of
           Inl e \<Rightarrow> Inl e
         | Inr doc_source_size \<Rightarrow>
             Inr (PDict
               [(''doc'', PStr (page_content doc)),
                (''source_path'', opt_str doc_source_path),
                (''last_modified'', last_modified doc),
                (''file_owner'', PStr doc_source_owner),
                (''source_size'', PInt (int doc_source_size))]))"

fun doc_records :: "sys_env \<Rightarrow> document list \<Rightarrow> error + pyval list" where
  "doc_records env [] = Inr []"
| "doc_records env (doc # rest) =
     (case doc_record env doc of
        Inl e \<Rightarrow> Inl e
      | Inr r \<Rightarrow> (case doc_records env rest of Inl e \<Rightarrow> Inl e | Inr rs \<Rightarrow> Inr (r # rs)))"

text \<open>
  The payload dictionary, with \<^verbatim>\<open>payload["loading_end"] = "true"\<close> applied when
  \<^verbatim>\<open>loading_end is True\<close>.
\<close>

definition loader_doc_payload ::
  "daxa_safe_loader \<Rightarrow> pyval list \<Rightarrow> bool \<Rightarrow> (string \<times> pyval) list" where
  "loader_doc_payload self recs loading_end =
     (let payload =
            [(''name'', PStr (app_name self)),
             (''owner'', PStr (owner self)),
             (''docs'', PList recs),
             (''plugin_version'', PStr PLUGIN_VERSION),
             (''load_id'', PStr (load_id self)),
             (''loader_details'', loader_details self),
             (''loading_end'', PStr ''false''),
             (''file_owner'', PStr (source_owner self))]
      in if loading_end then AList.update ''loading_end'' (PStr ''true'') payload else payload)"

text \<open>
  The \<^verbatim>\<open>try\<close> block: the request is handed to \<^verbatim>\<open>requests.post\<close>; whatever comes back,
  or is raised, is logged and nothing leaves the block.
\<close>

definition post_loader_doc :: "sys_env \<Rightarrow> pyval \<Rightarrow> world \<Rightarrow> world" where
  "post_loader_doc env payload wd =
     (let load_doc_url = CLASSIFIER_URL env @ ''/loader/doc'';
          wd' = wd\<lparr>http_log := http_log wd @ [(load_doc_url, payload)]\<rparr>
      in case requests_post env load_doc_url payload of
           Response status json_ok \<Rightarrow> wd'
         | RequestException \<Rightarrow> wd'
         | OtherException \<Rightarrow> wd')"

text \<open>The method up to the validation: the records, then the dictionary.\<close>

definition build_payload ::
  "sys_env \<Rightarrow> daxa_safe_loader \<Rightarrow> bool \<Rightarrow> error + (string \<times> pyval) list" where
  "build_payload env self loading_end =
     (case doc_records env (docs self) of
        Inl e \<Rightarrow> Inl e
      | Inr recs \<Rightarrow> Inr (loader_doc_payload self recs loading_end))"

text \<open>
  The records are built and the payload validated before the \<^verbatim>\<open>try\<close>, so their
  exceptions leave the method.
\<close>

definition send_loader_doc ::
  "sys_env \<Rightarrow> daxa_safe_loader \<Rightarrow> bool \<Rightarrow> world \<Rightarrow> (error + unit) \<times> world" where
  "send_loader_doc env self loading_end wd =
     (case build_payload env self loading_end of
        Inl e \<Rightarrow> (Inl e, wd)
      | Inr unvalidated \<Rightarrow>
          (case Doc_model_validate env unvalidated of
             Inl e \<Rightarrow> (Inl e, wd)
           | Inr payload \<Rightarrow>
               (let wd' = post_loader_doc env payload wd
                in (Inr (), if loading_end then wd'\<lparr>loader_sent := True\<rparr> else wd'))))"

subsection \<open>_send_discover and _get_app_details\<close>

definition send_discover :: "sys_env \<Rightarrow> daxa_safe_loader \<Rightarrow> world \<Rightarrow> world" where
  "send_discover env self wd =
     (let payload = app self;
          app_discover_url = CLASSIFIER_URL env @ ''/app/discover'';
          wd' = wd\<lparr>http_log := http_log wd @ [(app_discover_url, payload)]\<rparr>
      in case requests_post env app_discover_url payload of
           Response status json_ok \<Rightarrow>
             if json_ok \<and> (status = 200 \<or> status = 502)
             then wd'\<lparr>discover_sent := True\<rparr> else wd'
         | RequestException \<Rightarrow> wd'
         | OtherException \<Rightarrow> wd')"

definition get_app_details :: "sys_env \<Rightarrow> daxa_safe_loader \<Rightarrow> error + pyval" where
  "get_app_details env self =
     (case get_runtime env of
        Inl e \<Rightarrow> Inl e
      | Inr (framework, runtime) \<Rightarrow>
          Inr (PDict
            [(''name'', PStr (app_name self)),
             (''owner'', PStr (owner self)),
             (''description'', PStr (description self)),
             (''load_id'', PStr (load_id self)),
             (''runtime'', runtime),
             (''framework'', framework),
             (''plugin_version'', PStr PLUGIN_VERSION)]))"

subsection \<open>__init__\<close>

text \<open>\<^verbatim>\<open>s.split(sep)\<close> for a one-character separator: never an empty list.\<close>

fun split_on :: "char \<Rightarrow> string \<Rightarrow> string list" where
  "split_on sep [] = [[]]"
| "split_on sep (c # cs) =
     (if c = sep then [] # split_on sep cs
      else (case split_on sep cs of [] \<Rightarrow> [[c]] | w # ws \<Rightarrow> (c # w) # ws))"

text \<open>\<^verbatim>\<open>str(type(self.loader)).split(".")[-1].split("'")[0]\<close>.\<close>

definition loader_name_of :: "base_loader \<Rightarrow> string" where
  "loader_name_of ld = hd (split_on (CHR 0x27) (last (split_on CHR ''.'' (type_str ld))))"

text \<open>
  The constructor of \<^verbatim>\<open>DaxaSafeLoader\<close> itself. \<open>app_id\<close> and \<open>owner\<close> are whatever the
  caller passes; each statement that can raise is a branch, in the source's order.
\<close>

definition init ::
  "sys_env \<Rightarrow> base_loader \<Rightarrow> pyval \<Rightarrow> pyval \<Rightarrow> string \<Rightarrow> world
     \<Rightarrow> (error + daxa_safe_loader) \<times> world" where
  "init env langchain_loader app_id owner_arg description_arg wd =
     (if \<not> py_truthy app_id \<or> \<not> is_str app_id
      then (Inl (NameError ''No app_id is passed or invalid app_id.''), wd)
      else if \<not> py_truthy owner_arg \<or> \<not> is_str owner_arg
      then (Inl (NameError ''No owner is passed or invalid owner.''), wd)
      else
        (let new_id = uuid4 env (uuid_count wd);
             wd1 = wd\<lparr>uuid_count := Suc (uuid_count wd)\<rparr>
         in case get_loader_full_path env langchain_loader of
              Inl e \<Rightarrow> (Inl e, wd1)
            | Inr path \<Rightarrow>
                (let loader_name = loader_name_of langchain_loader;
                     stype = get_loader_type loader_name
                 in case get_source_size (fs env) path of
                      Inl e \<Rightarrow> (Inl e, wd1)
                    | Inr ssize \<Rightarrow>
                        (let self0 =
                           \<lparr>class_name = ''DaxaSafeLoader'',
                            app_name = str_of env app_id,
                            load_id = new_id,
                            loader = langchain_loader,
                            owner = str_of env owner_arg,
                            description = description_arg,
                            source_path = path,
                            source_owner = get_file_owner_from_path (fs env) path,
                            docs = [],
                            source_type = stype,
                            source_size = ssize,
                            loader_details =
                              PDict [(''loader'', PStr loader_name),
                                     (''source_path'', opt_str path),
                                     (''source_type'', PStr stype),
                                     (''source_size'', PInt (int ssize))],
                            app = PNone\<rparr>
                         in case get_app_details env self0 of
                              Inl e \<Rightarrow> (Inl e, wd1)
                            | Inr a \<Rightarrow>
                                (let self = self0\<lparr>app := a\<rparr>
                                 in (Inr self, send_discover env self wd1))))))"

subsection \<open>load\<close>

text \<open>The result, the wrapper after the call and the world after the call.\<close>

definition load ::
  "sys_env \<Rightarrow> daxa_safe_loader \<Rightarrow> world
     \<Rightarrow> (error + document list) \<times> daxa_safe_loader \<times> world" where
  "load env self wd =
     (case load_result (loader self) of
        Inl e \<Rightarrow> (Inl e, self, wd)
      | Inr loaded \<Rightarrow>
          (let self' = self\<lparr>docs := loaded\<rparr>
           in case send_loader_doc env self' True wd of
                (Inl e, wd') \<Rightarrow> (Inl e, self', wd')
              | (Inr u, wd') \<Rightarrow> (Inr (docs self'), self', wd')))"

subsection \<open>lazy_load\<close>

text \<open>
  The \<^verbatim>\<open>while True\<close> loop of the generator, driven by a caller that asks for items until
  the generator ends: the batches yielded so far, and how it ends (\<open>None\<close> when it returns,
  \<open>Some e\<close> when \<open>e\<close> is raised into the caller). The first argument pair is the wrapped
  iterator: the documents it still yields, then how it ends.
\<close>

fun lazy_loop ::
  "sys_env \<Rightarrow> daxa_safe_loader \<Rightarrow> document list \<Rightarrow> error option \<Rightarrow> world
     \<Rightarrow> document list list \<times> error option \<times> daxa_safe_loader \<times> world" where
  "lazy_loop env self [] ending wd =
     (case ending of
        Some e \<Rightarrow> ([], Some e, self, wd)
      | None \<Rightarrow>
          (let self' = self\<lparr>docs := []\<rparr>
           in case send_loader_doc env self' True wd of
                (Inl e, wd') \<Rightarrow> ([], Some e, self', wd')
              | (Inr u, wd') \<Rightarrow> ([], None, self', wd')))"
| "lazy_loop env self (doc # rest) ending wd =
     (let self' = self\<lparr>docs := [doc]\<rparr>
      in case send_loader_doc env self' False wd of
           (Inl e, wd') \<Rightarrow> ([], Some e, self', wd')
         | (Inr u, wd') \<Rightarrow>
             (case lazy_loop env self' rest ending wd' of
                (batches, r, self'', wd'') \<Rightarrow> (docs self' # batches, r, self'', wd'')))"

text \<open>
  Only \<^verbatim>\<open>NotImplementedError\<close> from \<^verbatim>\<open>self.loader.lazy_load()\<close> is caught and raised
  anew with the wrapper's message; any other exception of that call passes through.
\<close>

definition lazy_load ::
  "sys_env \<Rightarrow> daxa_safe_loader \<Rightarrow> world
     \<Rightarrow> document list list \<times> error option \<times> daxa_safe_loader \<times> world" where
  "lazy_load env self wd =
     (case lazy_load_result (loader self) of
        Inl exc \<Rightarrow>
          (case exc of
             NotImplementedError m \<Rightarrow>
               ([], Some (NotImplementedError (class_name self @ '' does not implement lazy_load()'')),
                self, wd)
           | _ \<Rightarrow> ([], Some exc, self, wd))
      | Inr (items, ending) \<Rightarrow> lazy_loop env self items ending wd)"

section \<open>The size of a directory, as a sum\<close>

text \<open>
  The sizes that count for a directory: for every triple of the walk and every file name
  in it whose joined path is not a symbolic link, the size of that path.
\<close>

definition regular_sizes ::
  "os_env \<Rightarrow> (string \<times> string list \<times> string list) list \<Rightarrow> nat list" where
  "regular_sizes os triples =
     concat (map (\<lambda>(dirpath, dirnames, filenames).
        map (\<lambda>f. os_getsize os (os_path_join dirpath f))
          (filter (\<lambda>f. \<not> os_islink os (os_path_join dirpath f)) filenames)) triples)"

section \<open>A directory tree as the file system\<close>

text \<open>
  A file system whose paths are those of a tree: a regular file with its size, a symbolic
  link with what it points to, a directory with its named entries.
\<close>

datatype link_target = ToFile nat | ToDir | Dangling

datatype fsnode = RegFile nat | Symlink link_target | Directory "(string \<times> fsnode) list"

fun is_symlink :: "fsnode \<Rightarrow> bool" where
  "is_symlink (Symlink tg) = True"
| "is_symlink (RegFile n) = False"
| "is_symlink (Directory es) = False"

text \<open>What \<^verbatim>\<open>os.walk\<close> lists under \<^verbatim>\<open>dirnames\<close>: directories and links to directories.\<close>

fun is_dir_entry :: "fsnode \<Rightarrow> bool" where
  "is_dir_entry (Directory es) = True"
| "is_dir_entry (Symlink tg) = (tg = ToDir)"
| "is_dir_entry (RegFile n) = False"

text \<open>Every path at or beneath \<open>p\<close>, with what is there.\<close>

fun entries :: "string \<Rightarrow> fsnode \<Rightarrow> (string \<times> fsnode) list" where
  "entries p (Directory es) =
     (p, Directory es) # concat (map (\<lambda>(n, c). entries (os_path_join p n) c) es)"
| "entries p (RegFile n) = [(p, RegFile n)]"
| "entries p (Symlink tg) = [(p, Symlink tg)]"

text \<open>
  \<^verbatim>\<open>os.walk(p)\<close>, top down: the triple of the directory, then the walks of its entries;
  a link to a directory is listed and not entered.
\<close>

fun walk_tree :: "string \<Rightarrow> fsnode \<Rightarrow> (string \<times> string list \<times> string list) list" where
  "walk_tree p (Directory es) =
     (p, map fst (filter (\<lambda>(n, c). is_dir_entry c) es),
         map fst (filter (\<lambda>(n, c). \<not> is_dir_entry c) es))
     # concat (map (\<lambda>(n, c). walk_tree (os_path_join p n) c) es)"
| "walk_tree p (RegFile n) = []"
| "walk_tree p (Symlink tg) = []"

text \<open>
  The size the specification gives a source: the size of a regular file; for a directory
  the sum over everything beneath it, a symbolic link counting for nothing.
\<close>

fun tree_size :: "fsnode \<Rightarrow> nat" where
  "tree_size (RegFile n) = n"
| "tree_size (Symlink tg) = 0"
| "tree_size (Directory es) = sum_list (map (\<lambda>(n, c). tree_size c) es)"

text \<open>
  The calls of \<open>os_env\<close> answered from a table of paths. \<^verbatim>\<open>isfile\<close>, \<^verbatim>\<open>isdir\<close> and
  \<^verbatim>\<open>getsize\<close> follow a link; \<^verbatim>\<open>islink\<close> does not. What a link points to lies outside
  the tree, so a walk that starts at a link is empty here; the lemmas below start at files
  and directories.
\<close>

definition os_of_entries :: "(string \<times> fsnode) list \<Rightarrow> os_env" where
  "os_of_entries E =
     \<lparr>os_isfile = (\<lambda>p. case map_of E p of
                          Some (RegFile n) \<Rightarrow> True
                        | Some (Symlink (ToFile n)) \<Rightarrow> True
                        | _ \<Rightarrow> False),
      os_isdir = (\<lambda>p. case map_of E p of
                         Some (Directory es) \<Rightarrow> True
                       | Some (Symlink ToDir) \<Rightarrow> True
                       | _ \<Rightarrow> False),
      os_islink = (\<lambda>p. case map_of E p of Some (Symlink tg) \<Rightarrow> True | _ \<Rightarrow> False),
      os_getsize = (\<lambda>p. case map_of E p of
                           Some (RegFile n) \<Rightarrow> n
                         | Some (Symlink (ToFile n)) \<Rightarrow> n
                         | _ \<Rightarrow> 0),
      os_walk = (\<lambda>p. case map_of E p of Some t \<Rightarrow> walk_tree p t | None \<Rightarrow> []),
      os_owner = (\<lambda>p. None),
      path_resolve = (\<lambda>p. p)\<rparr>"

text \<open>The share of an entry in the size of its directory: as a file, and as a subdirectory.\<close>

definition file_part :: "fsnode \<Rightarrow> nat" where
  "file_part c = (case c of RegFile n \<Rightarrow> n | _ \<Rightarrow> 0)"

definition dir_part :: "fsnode \<Rightarrow> nat" where
  "dir_part c = (case c of Directory es \<Rightarrow> tree_size c | _ \<Rightarrow> 0)"

text \<open>
  \<^verbatim>\<open>/data\<close> again, now with a subdirectory that holds a file of 5 bytes and a link to a
  directory.
\<close>

definition demo_tree :: fsnode where
  "demo_tree =
     Directory [(''a.txt'', RegFile 10), (''b.txt'', RegFile 20),
                (''link'', Symlink (ToFile 10)),
                (''sub'', Directory [(''c.txt'', RegFile 5), (''up'', Symlink ToDir)])]"

section \<open>A small installation\<close>

text \<open>
  A directory \<^verbatim>\<open>/data\<close> with two files of 10 and 20 bytes and a symbolic link to the
  first; relative paths resolve against \<^verbatim>\<open>/home/alice\<close>.
\<close>

definition demo_os :: os_env where
  "demo_os =
     \<lparr>os_isfile = (\<lambda>p. p = ''/data/a.txt'' \<or> p = ''/data/b.txt'' \<or> p = ''/data/link''),
      os_isdir = (\<lambda>p. p = ''/data''),
      os_islink = (\<lambda>p. p = ''/data/link''),
      os_getsize = (\<lambda>p. if p = ''/data/a.txt'' \<or> p = ''/data/link'' then 10
                          else if p = ''/data/b.txt'' then 20 else 0),
      os_walk = (\<lambda>p. if p = ''/data''
                       then [(''/data'', [], [''a.txt'', ''b.txt'', ''link''])] else []),
      os_owner = (\<lambda>p. if p = ''/data'' \<or> p = ''/data/a.txt'' \<or> p = ''/data/b.txt''
                           \<or> p = ''/data/link''
                        then Some ''alice'' else None),
      path_resolve = (\<lambda>p. ''/home/alice/'' @ p)\<rparr>"

text \<open>
  A field validator that takes a value of the declared type, and the strings
  \<^verbatim>\<open>"true"\<close> and \<^verbatim>\<open>"false"\<close> for a boolean.
\<close>

definition demo_coerce :: "ftype \<Rightarrow> pyval \<Rightarrow> pyval option" where
  "demo_coerce t v =
     (case (t, v) of
        (TStr, PStr s) \<Rightarrow> Some (PStr s)
      | (TList, PList xs) \<Rightarrow> Some (PList xs)
      | (TDict, PDict kvs) \<Rightarrow> Some (PDict kvs)
      | (TBool, PBool b) \<Rightarrow> Some (PBool b)
      | (TBool, PStr s) \<Rightarrow>
          (if s = ''true'' then Some (PBool True)
           else if s = ''false'' then Some (PBool False) else None)
      | _ \<Rightarrow> None)"

text \<open>The remote service is down: every request fails in the network.\<close>

definition demo_env :: sys_env where
  "demo_env =
     \<lparr>fs = demo_os,
      CLASSIFIER_URL = ''http://localhost:8000/v1'',
      uuid4 = (\<lambda>n. ''load-'' @ replicate n CHR ''i''),
      get_runtime =
        Inr (PDict [(''name'', PStr ''langchain''), (''version'', PStr ''0.1.12'')],
             PDict [(''type'', PStr ''local''), (''host'', PStr ''box'')]),
      requests_post = (\<lambda>url body. RequestException),
      coerce = demo_coerce,
      py_repr = (\<lambda>v. ''?'')\<rparr>"

definition demo_world :: world where
  "demo_world = \<lparr>http_log = [], discover_sent = False, loader_sent = False, uuid_count = 0\<rparr>"

text \<open>\<^verbatim>\<open>str(type(x))\<close> for an instance of the class with qualified name \<open>q\<close>.\<close>

definition class_repr :: "string \<Rightarrow> string" where
  "class_repr q = ''<class '' @ [CHR 0x27] @ q @ [CHR 0x27] @ ''>''"

definition doc_a :: document where
  "doc_a = \<lparr>page_content = ''hello'', doc_source = Some ''/data/a.txt'', last_modified = PNone\<rparr>"


text \<open>A file loader on \<^verbatim>\<open>/data/a.txt\<close> that loads one document, eagerly and lazily.\<close>

definition csv_loader :: base_loader where
  "csv_loader =
     \<lparr>type_str = class_repr ''langchain_community.document_loaders.csv_loader.CSVLoader'',
      is_BaseLoader = True, is_GCSFileLoader = False, is_S3FileLoader = False,
      is_DataFrameLoader = False, is_NotionDBLoader = False,
      attrs = [(''file_path'', PStr ''/data/a.txt'')],
      load_result = Inr [doc_a],
      lazy_load_result = Inr ([doc_a], None)\<rparr>"

text \<open>The same loader without a lazy iterator: the call raises, as the base class does.\<close>

definition eager_only_loader :: base_loader where
  "eager_only_loader =
     csv_loader\<lparr>lazy_load_result :=
       Inl (NotImplementedError ''CSVLoader does not implement lazy_load()'')\<rparr>"



text \<open>A loader of web pages: its source is a URL, neither a file nor a directory.\<close>

definition web_loader :: base_loader where
  "web_loader =
     \<lparr>type_str = class_repr ''langchain_community.document_loaders.web_base.WebBaseLoader'',
      is_BaseLoader = True, is_GCSFileLoader = False, is_S3FileLoader = False,
      is_DataFrameLoader = False, is_NotionDBLoader = False,
      attrs = [(''web_paths'', PList [PStr ''https://example.com/'']),
               (''session'', PNone)],
      load_result = Inr [],
      lazy_load_result = Inr ([], None)\<rparr>"

text \<open>The wrapper that the constructor builds around \<open>csv_loader\<close>.\<close>

definition demo_self :: daxa_safe_loader where
  "demo_self =
     \<lparr>class_name = ''DaxaSafeLoader'',
      app_name = ''app'',
      load_id = ''load-'',
      loader = csv_loader,
      owner = ''alice'',
      description = [],
      source_path = Some ''/data/a.txt'',
      source_owner = ''alice'',
      docs = [],
      source_type = ''file'',
      source_size = 10,
      loader_details =
        PDict [(''loader'', PStr ''CSVLoader''),
               (''source_path'', PStr ''/data/a.txt''),
               (''source_type'', PStr ''file''),
               (''source_size'', PInt 10)],
      app =
        PDict [(''name'', PStr ''app''),
               (''owner'', PStr ''alice''),
               (''description'', PStr []),
               (''load_id'', PStr ''load-''),
               (''runtime'', PDict [(''type'', PStr ''local''), (''host'', PStr ''box'')]),
               (''framework'',
                  PDict [(''name'', PStr ''langchain''), (''version'', PStr ''0.1.12'')]),
               (''plugin_version'', PStr ''0.1.0'')]\<rparr>"


section \<open>Lemmas about the helpers\<close>

lemma starts_with_iff: "starts_with s pre \<longleftrightarrow> (\<exists>b. s = pre @ b)"
  unfolding starts_with_def by (metis append_eq_conv_conj)

lemma str_contains_iff: "str_contains sub s \<longleftrightarrow> (\<exists>a b. s = a @ sub @ b)"
proof (induction s)
  case Nil
  show ?case by auto
next
  case (Cons c cs)
  have "(\<exists>a b. c # cs = a @ sub @ b) \<longleftrightarrow>
          (\<exists>b. c # cs = sub @ b) \<or> (\<exists>a b. cs = a @ sub @ b)"
    by (auto simp: Cons_eq_append_conv)
  then show ?case using Cons.IH by (simp add: starts_with_iff)
qed

lemma size_of_filenames_sum:
  "size_of_filenames os d fnames acc =
     acc + sum_list (map (\<lambda>f. os_getsize os (os_path_join d f))
                       (filter (\<lambda>f. \<not> os_islink os (os_path_join d f)) fnames))"
  by (induction fnames arbitrary: acc) (simp_all add: Let_def)

lemma size_of_walk_sum:
  "size_of_walk os triples acc = acc + sum_list (regular_sizes os triples)"
  by (induction triples arbitrary: acc) (auto simp: regular_sizes_def size_of_filenames_sum)

lemma validate_fields_missing:
  "k \<in> fst ` set declared \<Longrightarrow> map_of payload k = None
     \<Longrightarrow> validate_fields co declared payload = None"
  by (induction declared) (force split: option.splits)+

lemma payload_lookup:
  "map_of (loader_doc_payload self recs le) ''source_owner'' = None"
  "map_of (loader_doc_payload self recs le) ''file_owner'' = Some (PStr (source_owner self))"
  "map_of (loader_doc_payload self recs le) ''docs'' = Some (PList recs)"
  "map_of (loader_doc_payload self recs le) ''loading_end'' =
     Some (PStr (if le then ''true'' else ''false''))"
  by (simp_all add: loader_doc_payload_def update_conv' Let_def)

lemma Doc_rejects_payload:
  "Doc_model_validate env (loader_doc_payload self recs le) = Inl ValidationError"
proof -
  have "''source_owner'' \<in> fst ` set Doc_fields"
    by (simp add: Doc_fields_def)
  then have "validate_fields (coerce env) Doc_fields (loader_doc_payload self recs le) = None"
    using payload_lookup(1) by (rule validate_fields_missing)
  then show ?thesis
    by (simp add: Doc_model_validate_def)
qed

text \<open>
  Whatever the documents and the network: \<^verbatim>\<open>_send_loader_doc\<close> raises, and leaves the
  world as it found it.
\<close>

lemma send_loader_doc_raises: "\<exists>e. send_loader_doc env self le wd = (Inl e, wd)"
  by (auto simp: send_loader_doc_def build_payload_def Doc_rejects_payload split: sum.splits)




text \<open>The constructor on the file loader: it succeeds and sends the discover report.\<close>

lemma init_csv_loader:
  "init demo_env csv_loader (PStr ''app'') (PStr ''alice'') [] demo_world =
     (Inr demo_self,
      demo_world\<lparr>http_log := [(''http://localhost:8000/v1/app/discover'', app demo_self)],
                 uuid_count := 1\<rparr>)"
  by (simp add: init_def demo_env_def demo_world_def csv_loader_def demo_self_def py_truthy_def
      is_str_def get_loader_full_path_def loader_location_def attr_def str_of_def
      get_full_path_def loader_name_of_def class_repr_def get_loader_type_def
      LOADER_TYPE_MAPPING_def file_loader_def get_source_size_def demo_os_def
      get_file_owner_from_path_def opt_str_def get_app_details_def send_discover_def
      PLUGIN_VERSION_def starts_with_def Let_def)

text \<open>Missing or non-string identity arguments: the two \<^verbatim>\<open>NameError\<close>s.\<close>

lemma init_invalid_app_id:
  "\<not> (\<exists>s. app_id = PStr s \<and> s \<noteq> []) \<Longrightarrow>
     init env ld app_id owner_arg d wd =
       (Inl (NameError ''No app_id is passed or invalid app_id.''), wd)"
  by (cases app_id) (simp_all add: init_def py_truthy_def is_str_def)

lemma init_invalid_owner:
  "app_id = PStr s \<Longrightarrow> s \<noteq> [] \<Longrightarrow> \<not> (\<exists>t. owner_arg = PStr t \<and> t \<noteq> []) \<Longrightarrow>
     init env ld app_id owner_arg d wd =
       (Inl (NameError ''No owner is passed or invalid owner.''), wd)"
  by (cases owner_arg) (simp_all add: init_def py_truthy_def is_str_def)

subsection \<open>The walk of a tree\<close>

lemma entries_head: "(p, t) \<in> set (entries p t)"
  by (cases t) simp_all

lemma entries_child:
  "(n, c) \<in> set es \<Longrightarrow> set (entries (os_path_join p n) c) \<subseteq> set (entries p (Directory es))"
  by auto

lemma regular_sizes_Cons:
  "regular_sizes os ((d, ds, fns) # rest) =
     map (\<lambda>f. os_getsize os (os_path_join d f)) (filter (\<lambda>f. \<not> os_islink os (os_path_join d f)) fns)
     @ regular_sizes os rest"
  by (simp add: regular_sizes_def)

lemma regular_sizes_concat:
  "regular_sizes os (concat xss) = concat (map (regular_sizes os) xss)"
  by (induction xss) (simp_all add: regular_sizes_def)

lemma tree_size_parts: "tree_size c = file_part c + dir_part c"
  by (cases c) (simp_all add: file_part_def dir_part_def)

lemma files_sum:
  assumes "\<And>n c. (n, c) \<in> set es \<Longrightarrow> map_of E (os_path_join p n) = Some c"
  shows "sum_list (map (\<lambda>f. os_getsize (os_of_entries E) (os_path_join p f))
            (filter (\<lambda>f. \<not> os_islink (os_of_entries E) (os_path_join p f))
               (map fst (filter (\<lambda>(n, c). \<not> is_dir_entry c) es))))
         = sum_list (map (\<lambda>(n, c). file_part c) es)"
  using assms
proof (induction es)
  case Nil
  show ?case by simp
next
  case (Cons e es)
  obtain n c where e: "e = (n, c)" by (cases e)
  have l: "map_of E (os_path_join p n) = Some c" using Cons.prems e by simp
  have ih: "sum_list (map (\<lambda>f. os_getsize (os_of_entries E) (os_path_join p f))
            (filter (\<lambda>f. \<not> os_islink (os_of_entries E) (os_path_join p f))
               (map fst (filter (\<lambda>(n, c). \<not> is_dir_entry c) es))))
         = sum_list (map (\<lambda>(n, c). file_part c) es)"
    using Cons by simp
  show ?case
    using ih l unfolding e
    by (cases c) (auto simp: os_of_entries_def file_part_def split: link_target.splits)
qed

lemma sum_list_concat_cong:
  "(\<And>x. x \<in> set xs \<Longrightarrow> sum_list (f x) = g x)
     \<Longrightarrow> sum_list (concat (map f xs)) = sum_list (map g xs)"
  by (induction xs) simp_all

text \<open>
  In a table without two entries for one path, the sizes the walk of a subtree counts
  add up to the size of the subtree.
\<close>

lemma walk_tree_sum:
  assumes "distinct (map fst E)" and "set (entries p t) \<subseteq> set E"
  shows "sum_list (regular_sizes (os_of_entries E) (walk_tree p t)) = dir_part t"
  using assms(2)
proof (induction t arbitrary: p)
  case (RegFile n)
  show ?case by (simp add: regular_sizes_def dir_part_def)
next
  case (Symlink tg)
  show ?case by (simp add: regular_sizes_def dir_part_def)
next
  case (Directory es)
  have sub: "\<And>n c. (n, c) \<in> set es \<Longrightarrow> set (entries (os_path_join p n) c) \<subseteq> set E"
    using Directory.prems entries_child by blast
  have look: "\<And>n c. (n, c) \<in> set es \<Longrightarrow> map_of E (os_path_join p n) = Some c"
    using sub entries_head assms(1) by (meson map_of_is_SomeI subsetD)
  have ih: "sum_list (regular_sizes (os_of_entries E) (walk_tree (os_path_join p n) c)) = dir_part c"
    if "(n, c) \<in> set es" for n c
    using Directory.IH [OF that, of c] sub [OF that] by simp
  have rec: "sum_list (concat (map (regular_sizes (os_of_entries E) \<circ>
                (\<lambda>(n, c). walk_tree (os_path_join p n) c)) es))
             = sum_list (map (\<lambda>(n, c). dir_part c) es)"
    by (rule sum_list_concat_cong) (auto simp: ih)
  have "sum_list (regular_sizes (os_of_entries E) (walk_tree p (Directory es)))
          = sum_list (map (\<lambda>(n, c). file_part c) es) + sum_list (map (\<lambda>(n, c). dir_part c) es)"
    by (simp add: regular_sizes_Cons regular_sizes_concat files_sum [OF look] rec)
  also have "\<dots> = sum_list (map (\<lambda>(n, c). tree_size c) es)"
    by (induction es) (auto simp: tree_size_parts)
  finally show ?case by (simp add: dir_part_def)
qed

text \<open>
  On such a file system \<^verbatim>\<open>get_source_size\<close> of a file or a directory is its size as
  \<open>tree_size\<close> defines it: recursive, and without the symbolic links.
\<close>

lemma get_source_size_tree:
  assumes "distinct (map fst E)" and "set (entries p t) \<subseteq> set E" and "\<not> is_symlink t"
  shows "get_source_size (os_of_entries E) (Some p) = Inr (tree_size t)"
proof -
  have l: "map_of E p = Some t"
    using assms(1,2) entries_head by (meson map_of_is_SomeI subsetD)
  show ?thesis
  proof (cases t)
    case (RegFile n)
    then show ?thesis using l by (simp add: get_source_size_def os_of_entries_def)
  next
    case (Symlink tg)
    then show ?thesis using assms(3) by simp
  next
    case (Directory es)
    have "size_of_walk (os_of_entries E) (walk_tree p t) 0 = dir_part t"
      using walk_tree_sum [OF assms(1,2)] by (simp add: size_of_walk_sum)
    moreover have "os_walk (os_of_entries E) p = walk_tree p t"
      using l by (simp add: os_of_entries_def)
    moreover have "\<not> os_isfile (os_of_entries E) p" "os_isdir (os_of_entries E) p"
      using l Directory by (simp_all add: os_of_entries_def)
    ultimately show ?thesis
      using Directory by (simp add: get_source_size_def dir_part_def)
  qed
qed

lemma get_source_size_demo_tree:
  "get_source_size (os_of_entries (entries ''/data'' demo_tree)) (Some ''/data'') = Inr 35"
proof -
  have d: "distinct (map fst (entries ''/data'' demo_tree))"
    by (simp add: demo_tree_def os_path_join_def starts_with_def)
  have s: "\<not> is_symlink demo_tree"
    by (simp add: demo_tree_def)
  show ?thesis
    using get_source_size_tree [OF d subset_refl s] by (simp add: demo_tree_def)
qed

subsection \<open>The wrapper\<close>

lemma get_source_size_neither:
  "\<not> os_isfile os p \<Longrightarrow> \<not> os_isdir os p \<Longrightarrow> get_source_size os (Some p) = Inl UnboundLocalError"
  by (simp add: get_source_size_def)

text \<open>
  A wrapper that the constructor returns has the identifier drawn for it, and the next
  construction draws the next one.
\<close>

lemma init_load_id:
  "init env ld app_id owner_arg d wd = (Inr self, wd') \<Longrightarrow>
     load_id self = uuid4 env (uuid_count wd) \<and> uuid_count wd' = Suc (uuid_count wd)
     \<and> class_name self = ''DaxaSafeLoader''"
  by (auto simp: init_def Let_def send_discover_def split: if_splits sum.splits post_outcome.splits)

text \<open>
  Since \<^verbatim>\<open>_send_loader_doc\<close> always raises: \<^verbatim>\<open>load\<close> never returns a list, and the
  generator of \<^verbatim>\<open>lazy_load\<close> never yields.
\<close>

lemma load_always_raises: "\<exists>e. fst (load env self wd) = Inl e"
proof (cases "load_result (loader self)")
  case (Inl e)
  then show ?thesis by (simp add: load_def)
next
  case (Inr loaded)
  obtain e where "send_loader_doc env (self\<lparr>docs := loaded\<rparr>) True wd = (Inl e, wd)"
    using send_loader_doc_raises by blast
  then show ?thesis using Inr by (simp add: load_def)
qed

lemma lazy_loop_yields_nothing:
  "\<exists>e self'. lazy_loop env self items ending wd = ([], Some e, self', wd)"
proof (cases items)
  case Nil
  obtain e where "send_loader_doc env (self\<lparr>docs := []\<rparr>) True wd = (Inl e, wd)"
    using send_loader_doc_raises by blast
  then show ?thesis using Nil by (cases ending) simp_all
next
  case (Cons d rest)
  obtain e where "send_loader_doc env (self\<lparr>docs := [d]\<rparr>) False wd = (Inl e, wd)"
    using send_loader_doc_raises by blast
  then show ?thesis using Cons by simp
qed

lemma lazy_load_yields_nothing:
  "\<exists>e self'. lazy_load env self wd = ([], Some e, self', wd)"
proof (cases "lazy_load_result (loader self)")
  case (Inl exc)
  then show ?thesis by (cases exc) (simp_all add: lazy_load_def)
next
  case (Inr it)
  then show ?thesis
    using lazy_loop_yields_nothing by (cases it) (simp add: lazy_load_def)
qed

text \<open>
  With a validator that takes \<^verbatim>\<open>"true"\<close> for a boolean, a payload that did have
  \<^verbatim>\<open>source_owner\<close> would be dumped with \<^verbatim>\<open>loading_end\<close> as a boolean.
\<close>

lemma Doc_coerces_loading_end:
  "Doc_model_validate demo_env
     ((''source_owner'', PStr ''alice'') # loader_doc_payload demo_self [] True) =
   Inr (PDict
     [(''name'', PStr ''app''), (''owner'', PStr ''alice''), (''docs'', PList []),
      (''plugin_version'', PStr ''0.1.0''), (''load_id'', PStr ''load-''),
      (''loader_details'', loader_details demo_self), (''loading_end'', PBool True),
      (''source_owner'', PStr ''alice'')])"
  by (simp add: Doc_model_validate_def Doc_fields_def loader_doc_payload_def demo_env_def
      demo_coerce_def demo_self_def PLUGIN_VERSION_def)

section \<open>The claims\<close>

subsection \<open>C1: load\<close>




subsection \<open>C2: construction\<close>

text \<open>
  Claim C2, on valid arguments and a loader of web pages: the source path is the URL,
  which is neither a file nor a directory, so \<^verbatim>\<open>get_source_size\<close> raises and the
  construction fails.
\<close>

theorem init_web_loader_raises:
  "init demo_env web_loader (PStr ''app'') (PStr ''alice'') [] demo_world =
     (Inl UnboundLocalError, demo_world\<lparr>uuid_count := 1\<rparr>)"
  by (simp add: init_def demo_env_def demo_world_def web_loader_def py_truthy_def is_str_def
      get_loader_full_path_def loader_location_def attr_def str_of_def get_full_path_def
      first_item_def get_source_size_def demo_os_def starts_with_def Let_def)

theorem init_web_loader_raises_witness:
  "py_truthy (PStr ''app'') \<and> is_str (PStr ''app'')
   \<and> py_truthy (PStr ''alice'') \<and> is_str (PStr ''alice'')
   \<and> fst (init demo_env web_loader (PStr ''app'') (PStr ''alice'') [] demo_world) =
       Inl UnboundLocalError"
  using init_web_loader_raises by (simp add: py_truthy_def is_str_def)

subsection \<open>C3: lazy_load\<close>



subsection \<open>C4: failures of the reporting\<close>



subsection \<open>C5: the payload against the Doc schema\<close>




subsection \<open>C6: a loader without lazy iteration\<close>

text \<open>
  When the wrapped loader's \<^verbatim>\<open>lazy_load()\<close> raises \<^verbatim>\<open>NotImplementedError\<close>, the wrapper's
  \<^verbatim>\<open>lazy_load\<close> yields nothing, sends nothing and fails with a \<^verbatim>\<open>NotImplementedError\<close> whose
  message is built from \<^verbatim>\<open>self.__class__.__name__\<close>, the class of the wrapper.
\<close>

lemma lazy_load_not_implemented:
  assumes "lazy_load_result (loader self) = Inl (NotImplementedError m)"
  shows "lazy_load env self wd =
           ([], Some (NotImplementedError (class_name self @ '' does not implement lazy_load()'')),
            self, wd)"
  using assms by (simp add: lazy_load_def)

text \<open>
  Claim C6, on a \<^verbatim>\<open>CSVLoader\<close> without a lazy iterator: the message of the error names
  the wrapper's class; the name of the wrapped loader's class does not occur in it.
\<close>

theorem lazy_load_message_names_wrapper:
  "lazy_load_result (loader (demo_self\<lparr>loader := eager_only_loader\<rparr>)) =
     Inl (NotImplementedError ''CSVLoader does not implement lazy_load()'')
   \<and> loader_name_of eager_only_loader = ''CSVLoader''
   \<and> fst (snd (lazy_load demo_env (demo_self\<lparr>loader := eager_only_loader\<rparr>) demo_world)) =
       Some (NotImplementedError ''DaxaSafeLoader does not implement lazy_load()'')
   \<and> \<not> str_contains ''CSVLoader'' ''DaxaSafeLoader does not implement lazy_load()''"
  by (simp add: lazy_load_def demo_self_def eager_only_loader_def csv_loader_def
      loader_name_of_def class_repr_def starts_with_def)

theorem lazy_load_message_names_wrapper_witness:
  "fst (snd (lazy_load demo_env (demo_self\<lparr>loader := eager_only_loader\<rparr>) demo_world)) \<noteq>
     Some (NotImplementedError ''CSVLoader does not implement lazy_load()'')"
  using lazy_load_message_names_wrapper by simp

subsection \<open>C7: get_loader_type\<close>

text \<open>
  Claim C7: \<^verbatim>\<open>get_loader_type\<close> gives the category of the first of the four lists, in the
  order file, dir, in-memory, remote_db, that holds the name as one of its elements, and
  \<^verbatim>\<open>"unknown"\<close> for a name that is in none of them.
\<close>

theorem get_loader_type_first_match:
  "get_loader_type name =
     (if name \<in> set file_loader then ''file''
      else if name \<in> set dir_loader then ''dir''
      else if name \<in> set in_memory then ''in-memory''
      else if name \<in> set remote_db then ''remote_db''
      else ''unknown'')"
  by (simp add: get_loader_type_def LOADER_TYPE_MAPPING_def)

theorem get_loader_type_first_match_witness:
  "get_loader_type ''S3DirLoader'' = ''dir'' \<and> get_loader_type ''S3Dir'' = ''unknown''"
  using get_loader_type_first_match [of "''S3DirLoader''"]
        get_loader_type_first_match [of "''S3Dir''"]
  by (simp add: file_loader_def dir_loader_def in_memory_def remote_db_def)

subsection \<open>C8: get_full_path\<close>

text \<open>
  Claim C8: \<^verbatim>\<open>get_full_path\<close> returns a path string unchanged when it is empty, begins
  with \<^verbatim>\<open>/\<close>, contains \<^verbatim>\<open>://\<close> or is one of \<^verbatim>\<open>unknown\<close>, \<^verbatim>\<open>-\<close>, \<^verbatim>\<open>in-memory\<close>; any
  other path comes back as \<^verbatim>\<open>pathlib\<close> resolves it.
\<close>

theorem get_full_path_cases:
  "get_full_path os (Some p) =
     Some (if p = [] \<or> (\<exists>rest. p = CHR ''/'' # rest) \<or> (\<exists>a b. p = a @ ''://'' @ b)
              \<or> p = ''unknown'' \<or> p = ''-'' \<or> p = ''in-memory''
           then p else path_resolve os p)"
proof -
  have "p \<noteq> [] \<Longrightarrow> (hd p = CHR ''/'') = (\<exists>rest. p = CHR ''/'' # rest)"
    by (cases p) auto
  then show ?thesis
    unfolding get_full_path_def by (auto simp: str_contains_iff)
qed

theorem get_full_path_cases_witness:
  "get_full_path demo_os (Some ''/a/b'') = Some ''/a/b''
   \<and> get_full_path demo_os (Some ''http://x/y'') = Some ''http://x/y''
   \<and> get_full_path demo_os (Some ''in-memory'') = Some ''in-memory''
   \<and> get_full_path demo_os (Some ''rel/f.txt'') = Some ''/home/alice/rel/f.txt''"
  using get_full_path_cases [of demo_os "''/a/b''"]
        get_full_path_cases [of demo_os "''http://x/y''"]
        get_full_path_cases [of demo_os "''in-memory''"]
        get_full_path_cases [of demo_os "''rel/f.txt''"]
  unfolding str_contains_iff [of "''://''", symmetric]
  by (simp add: starts_with_def demo_os_def)

subsection \<open>C9: get_source_size\<close>

text \<open>
  Claim C9: for a path that is a regular file \<^verbatim>\<open>get_source_size\<close> returns the size of the
  file; for a path that is a directory it returns the sum, over the whole walk of the
  directory, of the sizes of the files that are not symbolic links.
\<close>

theorem get_source_size_file_or_dir:
  "(os_isfile os p \<longrightarrow> get_source_size os (Some p) = Inr (os_getsize os p)) \<and>
   (\<not> os_isfile os p \<and> os_isdir os p \<longrightarrow>
      get_source_size os (Some p) = Inr (sum_list (regular_sizes os (os_walk os p))))"
  by (simp add: get_source_size_def size_of_walk_sum)

theorem get_source_size_file_or_dir_witness:
  "os_isfile demo_os ''/data/b.txt'' \<and> get_source_size demo_os (Some ''/data/b.txt'') = Inr 20
   \<and> \<not> os_isfile demo_os ''/data'' \<and> os_isdir demo_os ''/data''
   \<and> get_source_size demo_os (Some ''/data'') = Inr 30"
  using get_source_size_file_or_dir [of demo_os "''/data/b.txt''"]
        get_source_size_file_or_dir [of demo_os "''/data''"]
  by (simp add: demo_os_def regular_sizes_def os_path_join_def starts_with_def)

end
